theory Spec2Isabelle
  imports Main "HOL-Library.Word" "HOL-Library.Sublist"
begin

section \<open>The configuration record and its reflective view\<close>

text \<open>
  Modelled from the spec: the declaration of the Go struct \<open>Config\<close> is not part of
  \<open>agent/config/config.go\<close>. The record below has exactly the fields that file reads
  and assigns, typed the way the file uses them (section 3 of the specification lists the
  value categories: strings, booleans, unsigned integers, byte sequences, sequences of
  unsigned integers). A Go slice is a list option: \<open>None\<close> is the nil slice,
  \<open>Some []\<close> an allocated slice of length 0. Go strings are byte strings, so
  \<open>string\<close> (a list of 8-bit characters) is the Go type. The struct tags of the
  declaration are unknown and therefore a parameter of every function that reads them.
\<close>

type_synonym uint16 = "16 word"

record Config =
  ClusterArn :: string
  Cluster :: string
  APIEndpoint :: string
  DockerEndpoint :: string
  AWSRegion :: string
  ReservedPorts :: "uint16 list option"
  ReservedPortsUDP :: "uint16 list option"
  DataDir :: string
  Checkpoint :: bool
  EngineAuthType :: string
  EngineAuthData :: "string option"
  UpdatesEnabled :: bool
  UpdateDownloadDir :: string
  DisableMetrics :: bool
  DockerGraphPath :: string
  ReservedMemory :: uint16
  EngineLogDriver :: string
  EngineLogOpts :: string

text \<open>\<open>Config{}\<close>: every field at the zero value of its type.\<close>

definition ConfigZero :: Config where
  "ConfigZero = \<lparr>ClusterArn = [], Cluster = [], APIEndpoint = [], DockerEndpoint = [],
     AWSRegion = [], ReservedPorts = None, ReservedPortsUDP = None, DataDir = [],
     Checkpoint = False, EngineAuthType = [], EngineAuthData = None,
     UpdatesEnabled = False, UpdateDownloadDir = [], DisableMetrics = False,
     DockerGraphPath = [], ReservedMemory = 0, EngineLogDriver = [], EngineLogOpts = []\<rparr>"

text \<open>
  What \<open>reflect.Value.Field(i).Interface()\<close> hands out: the value of a field together
  with its dynamic type.
\<close>

datatype Value =
    VString string
  | VBool bool
  | VUint16 uint16
  | VUint16s "uint16 list option"
  | VBytes "string option"

datatype GoType = TString | TBool | TUint16 | TUint16Slice | TByteSlice

datatype Kind = KString | KBool | KUint16 | KSlice

fun TypeOf :: "Value \<Rightarrow> GoType" where
  "TypeOf (VString _) = TString"
| "TypeOf (VBool _) = TBool"
| "TypeOf (VUint16 _) = TUint16"
| "TypeOf (VUint16s _) = TUint16Slice"
| "TypeOf (VBytes _) = TByteSlice"

fun KindOf :: "Value \<Rightarrow> Kind" where
  "KindOf (VString _) = KString"
| "KindOf (VBool _) = KBool"
| "KindOf (VUint16 _) = KUint16"
| "KindOf (VUint16s _) = KSlice"
| "KindOf (VBytes _) = KSlice"

text \<open>\<open>reflect.Kind.String()\<close>.\<close>

fun KindString :: "Kind \<Rightarrow> string" where
  "KindString KString = ''string''"
| "KindString KBool = ''bool''"
| "KindString KUint16 = ''uint16''"
| "KindString KSlice = ''slice''"

definition NumField :: nat where
  "NumField = 18"

definition fieldValues :: "Config \<Rightarrow> Value list" where
  "fieldValues c = [VString (ClusterArn c), VString (Cluster c), VString (APIEndpoint c),
     VString (DockerEndpoint c), VString (AWSRegion c), VUint16s (ReservedPorts c),
     VUint16s (ReservedPortsUDP c), VString (DataDir c), VBool (Checkpoint c),
     VString (EngineAuthType c), VBytes (EngineAuthData c), VBool (UpdatesEnabled c),
     VString (UpdateDownloadDir c), VBool (DisableMetrics c), VString (DockerGraphPath c),
     VUint16 (ReservedMemory c), VString (EngineLogDriver c), VString (EngineLogOpts c)]"

definition names :: "string list" where
  "names = [''ClusterArn'', ''Cluster'', ''APIEndpoint'', ''DockerEndpoint'', ''AWSRegion'',
     ''ReservedPorts'', ''ReservedPortsUDP'', ''DataDir'', ''Checkpoint'', ''EngineAuthType'',
     ''EngineAuthData'', ''UpdatesEnabled'', ''UpdateDownloadDir'', ''DisableMetrics'',
     ''DockerGraphPath'', ''ReservedMemory'', ''EngineLogDriver'', ''EngineLogOpts'']"

text \<open>
  \<open>GetField i c\<close> is \<open>reflect.ValueOf(&c).Elem().Field(i).Interface()\<close> and \<open>Name i\<close> is
  \<open>Type().Field(i).Name\<close>. Both are only ever called by the loops below, whose index
  runs over \<open>[0..<NumField]\<close>.
\<close>

definition GetField :: "nat \<Rightarrow> Config \<Rightarrow> Value" where
  "GetField i c = fieldValues c ! i"

definition Name :: "nat \<Rightarrow> string" where
  "Name i = names ! i"

text \<open>
  \<open>reflect.Value.Set\<close> on field \<open>i\<close>. It panics when the value is not assignable to the
  field's type (and there is no field beyond the last index): the panic is \<open>None\<close>.
\<close>

definition SetField :: "nat \<Rightarrow> Value \<Rightarrow> Config \<Rightarrow> Config option" where
  "SetField i v c = (case v of
      VString s \<Rightarrow>
        (if i = 0 then Some (c\<lparr>ClusterArn := s\<rparr>)
         else if i = 1 then Some (c\<lparr>Cluster := s\<rparr>)
         else if i = 2 then Some (c\<lparr>APIEndpoint := s\<rparr>)
         else if i = 3 then Some (c\<lparr>DockerEndpoint := s\<rparr>)
         else if i = 4 then Some (c\<lparr>AWSRegion := s\<rparr>)
         else if i = 7 then Some (c\<lparr>DataDir := s\<rparr>)
         else if i = 9 then Some (c\<lparr>EngineAuthType := s\<rparr>)
         else if i = 12 then Some (c\<lparr>UpdateDownloadDir := s\<rparr>)
         else if i = 14 then Some (c\<lparr>DockerGraphPath := s\<rparr>)
         else if i = 16 then Some (c\<lparr>EngineLogDriver := s\<rparr>)
         else if i = 17 then Some (c\<lparr>EngineLogOpts := s\<rparr>)
         else None)
    | VBool b \<Rightarrow>
        (if i = 8 then Some (c\<lparr>Checkpoint := b\<rparr>)
         else if i = 11 then Some (c\<lparr>UpdatesEnabled := b\<rparr>)
         else if i = 13 then Some (c\<lparr>DisableMetrics := b\<rparr>)
         else None)
    | VUint16 n \<Rightarrow>
        (if i = 15 then Some (c\<lparr>ReservedMemory := n\<rparr>) else None)
    | VUint16s p \<Rightarrow>
        (if i = 5 then Some (c\<lparr>ReservedPorts := p\<rparr>)
         else if i = 6 then Some (c\<lparr>ReservedPortsUDP := p\<rparr>)
         else None)
    | VBytes d \<Rightarrow>
        (if i = 10 then Some (c\<lparr>EngineAuthData := d\<rparr>) else None))"

text \<open>
  Modelled from the spec: \<open>utils.ZeroOrNil\<close> is not among the sources. Section 3 of the
  specification: "every field type defines its own zero-equivalent -- empty string,
  false, zero-length sequence, zero numeric value, absent byte sequence".
\<close>

fun ZeroOrNil :: "Value \<Rightarrow> bool" where
  "ZeroOrNil (VString s) = (s = [])"
| "ZeroOrNil (VBool b) = (\<not> b)"
| "ZeroOrNil (VUint16 n) = (n = 0)"
| "ZeroOrNil (VUint16s p) = (case p of None \<Rightarrow> True | Some xs \<Rightarrow> xs = [])"
| "ZeroOrNil (VBytes d) = (case d of None \<Rightarrow> True | Some xs \<Rightarrow> xs = [])"

section \<open>Merge and Complete\<close>

text \<open>
  \<open>Merge\<close>: the loop over the field indices. The right operand is passed by value in the
  source and only read.
\<close>

fun Merge_loop :: "nat list \<Rightarrow> Config \<Rightarrow> Config \<Rightarrow> Config option" where
  "Merge_loop [] lhs rhs = Some lhs"
| "Merge_loop (i # is) lhs rhs =
     (if ZeroOrNil (GetField i lhs)
      then (case SetField i (GetField i rhs) lhs of
              None \<Rightarrow> None
            | Some lhs' \<Rightarrow> Merge_loop is lhs' rhs)
      else Merge_loop is lhs rhs)"

definition Merge :: "Config \<Rightarrow> Config \<Rightarrow> Config option" where
  "Merge lhs rhs = Merge_loop [0..<NumField] lhs rhs"

text \<open>\<open>Complete\<close>: returns false at the first empty field.\<close>

fun Complete_loop :: "nat list \<Rightarrow> Config \<Rightarrow> bool" where
  "Complete_loop [] cfg = True"
| "Complete_loop (i # is) cfg =
     (if ZeroOrNil (GetField i cfg) then False else Complete_loop is cfg)"

definition Complete :: "Config \<Rightarrow> bool" where
  "Complete cfg = Complete_loop [0..<NumField] cfg"

section \<open>Effects: log records and calls to the outside\<close>

text \<open>
  The functions below log through \<open>log.Warn\<close>, \<open>log.Crit\<close> and \<open>log.Error\<close>, open a
  file and call the EC2 metadata client. Each of these is an entry of the trace a function
  returns next to its result, in program order. A log record carries its level, its
  message and its key/value context; the value of an \<open>"err"\<close> key is the error of a
  library call, whose text is not modelled.
\<close>

datatype Level = LvlWarn | LvlCrit | LvlError

datatype Ctx = CStr string | CInt nat | CErr

datatype Effect =
    Log Level string "(string \<times> Ctx) list"
  | OsOpen string
  | InstanceIdentityDocument

type_synonym Tags = "nat \<Rightarrow> string \<Rightarrow> string"

section \<open>CheckMissingAndDepreciated\<close>

text \<open>\<open>strings.Join\<close>.\<close>

fun Join :: "string list \<Rightarrow> string \<Rightarrow> string" where
  "Join [] sep = []"
| "Join [x] sep = x"
| "Join (x # y # zs) sep = x @ sep @ Join (y # zs) sep"

text \<open>
  The loop of \<open>CheckMissingAndDepreciated\<close>; \<open>tag i key\<close> is
  \<open>Type().Field(i).Tag.Get(key)\<close>. The accumulators are \<open>fatalFields\<close> and the trace.
\<close>

fun Check_loop ::
  "Tags \<Rightarrow> nat list \<Rightarrow> Config \<Rightarrow> string list \<Rightarrow> Effect list \<Rightarrow> string list \<times> Effect list" where
  "Check_loop tag [] cfg fatalFields lg = (fatalFields, lg)"
| "Check_loop tag (i # is) cfg fatalFields lg =
     (if ZeroOrNil (GetField i cfg) then
        (let missingTag = tag i ''missing'' in
         if length missingTag = 0 then Check_loop tag is cfg fatalFields lg
         else if missingTag = ''warn'' then
           Check_loop tag is cfg fatalFields
             (lg @ [Log LvlWarn ''Configuration key not set'' [(''key'', CStr (Name i))]])
         else if missingTag = ''fatal'' then
           Check_loop tag is cfg (fatalFields @ [Name i])
             (lg @ [Log LvlCrit ''Configuration key not set'' [(''key'', CStr (Name i))]])
         else
           Check_loop tag is cfg fatalFields
             (lg @ [Log LvlWarn ''Unexpected `missing` tag value'' [(''tag'', CStr missingTag)]]))
      else
        (let deprecatedTag = tag i ''deprecated'' in
         if length deprecatedTag = 0 then Check_loop tag is cfg fatalFields lg
         else
           Check_loop tag is cfg fatalFields
             (lg @ [Log LvlWarn ''Use of deprecated configuration key''
                      [(''key'', CStr (Name i)), (''message'', CStr deprecatedTag)]])))"

text \<open>The error is \<open>errors.New\<close> of a message: \<open>None\<close> is the nil error.\<close>

definition CheckMissingAndDepreciated :: "Tags \<Rightarrow> Config \<Rightarrow> string option \<times> Effect list" where
  "CheckMissingAndDepreciated tag cfg =
     (case Check_loop tag [0..<NumField] cfg [] [] of
        (fatalFields, lg) \<Rightarrow>
          (if length fatalFields > 0
           then Some (''Missing required fields: '' @ Join fatalFields '', '')
           else None, lg))"

section \<open>TrimWhitespace\<close>

text \<open>
  \<open>strings.TrimSpace\<close> removes the leading and the trailing runes for which
  \<open>unicode.IsSpace\<close> holds. On the UTF-8 bytes of a Go string these are the encodings
  below: tab, line feed, vertical tab, form feed, carriage return and space, then U+0085,
  U+00A0, U+1680, U+2000 to U+200A, U+2028, U+2029, U+202F, U+205F and U+3000.
\<close>

definition spaceRunes :: "string list" where
  "spaceRunes =
     [[CHR 0x09], [CHR 0x0A], [CHR 0x0B], [CHR 0x0C], [CHR 0x0D], [CHR 0x20],
      [CHR 0xC2, CHR 0x85], [CHR 0xC2, CHR 0xA0],
      [CHR 0xE1, CHR 0x9A, CHR 0x80],
      [CHR 0xE2, CHR 0x80, CHR 0x80], [CHR 0xE2, CHR 0x80, CHR 0x81],
      [CHR 0xE2, CHR 0x80, CHR 0x82], [CHR 0xE2, CHR 0x80, CHR 0x83],
      [CHR 0xE2, CHR 0x80, CHR 0x84], [CHR 0xE2, CHR 0x80, CHR 0x85],
      [CHR 0xE2, CHR 0x80, CHR 0x86], [CHR 0xE2, CHR 0x80, CHR 0x87],
      [CHR 0xE2, CHR 0x80, CHR 0x88], [CHR 0xE2, CHR 0x80, CHR 0x89],
      [CHR 0xE2, CHR 0x80, CHR 0x8A],
      [CHR 0xE2, CHR 0x80, CHR 0xA8], [CHR 0xE2, CHR 0x80, CHR 0xA9],
      [CHR 0xE2, CHR 0x80, CHR 0xAF], [CHR 0xE2, CHR 0x81, CHR 0x9F],
      [CHR 0xE3, CHR 0x80, CHR 0x80]]"

definition leadingSpace :: "string \<Rightarrow> string option" where
  "leadingSpace s = find (\<lambda>p. prefix p s) spaceRunes"

definition trailingSpace :: "string \<Rightarrow> string option" where
  "trailingSpace s = find (\<lambda>p. suffix p s) spaceRunes"

lemma spaceRunes_nonempty: "p \<in> set spaceRunes \<Longrightarrow> p \<noteq> []"
  by (auto simp: spaceRunes_def)

lemma leadingSpace_shorter:
  "leadingSpace s = Some p \<Longrightarrow> length (drop (length p) s) < length s"
  by (auto simp: leadingSpace_def find_Some_iff prefix_def dest!: spaceRunes_nonempty nth_mem)

lemma trailingSpace_shorter:
  "trailingSpace s = Some p \<Longrightarrow> length (take (length s - length p) s) < length s"
  by (auto simp: trailingSpace_def find_Some_iff suffix_def dest!: spaceRunes_nonempty nth_mem)

function TrimLeftSpace :: "string \<Rightarrow> string" where
  "TrimLeftSpace s =
     (case leadingSpace s of
        None \<Rightarrow> s
      | Some p \<Rightarrow> TrimLeftSpace (drop (length p) s))"
  by pat_completeness auto
termination
  by (relation "measure length") (auto dest: leadingSpace_shorter)

function TrimRightSpace :: "string \<Rightarrow> string" where
  "TrimRightSpace s =
     (case trailingSpace s of
        None \<Rightarrow> s
      | Some p \<Rightarrow> TrimRightSpace (take (length s - length p) s))"
  by pat_completeness auto
termination
  by (relation "measure length") (auto dest: trailingSpace_shorter)

definition TrimSpace :: "string \<Rightarrow> string" where
  "TrimSpace s = TrimRightSpace (TrimLeftSpace s)"

text \<open>
  \<open>CanInterface\<close> is false only for a field reached through an unexported name. Every
  field of \<open>Config\<close> is exported (the names are capitalised).
\<close>

definition CanInterface :: "nat \<Rightarrow> bool" where
  "CanInterface i = True"

text \<open>
  The loop of \<open>TrimWhitespace\<close>. The type assertion \<open>.(string)\<close> and \<open>SetString\<close>
  panic on a value that is not a string: \<open>None\<close>.
\<close>

fun Trim_loop :: "Tags \<Rightarrow> nat list \<Rightarrow> Config \<Rightarrow> Effect list \<Rightarrow> (Config \<times> Effect list) option" where
  "Trim_loop tag [] cfg lg = Some (cfg, lg)"
| "Trim_loop tag (i # is) cfg lg =
     (if \<not> CanInterface i then Trim_loop tag is cfg lg
      else
        (let trimTag = tag i ''trim'' in
         if length trimTag = 0 then Trim_loop tag is cfg lg
         else if KindOf (GetField i cfg) \<noteq> KString then
           Trim_loop tag is cfg
             (lg @ [Log LvlWarn ''Cannot trim non-string field''
                      [(''type'', CStr (KindString (KindOf (GetField i cfg)))), (''index'', CInt i)]])
         else
           (case GetField i cfg of
              VString str \<Rightarrow>
                (case SetField i (VString (TrimSpace str)) cfg of
                   None \<Rightarrow> None
                 | Some cfg' \<Rightarrow> Trim_loop tag is cfg' lg)
            | _ \<Rightarrow> None)))"

definition TrimWhitespace :: "Tags \<Rightarrow> Config \<Rightarrow> (Config \<times> Effect list) option" where
  "TrimWhitespace tag cfg = Trim_loop tag [0..<NumField] cfg []"

section \<open>DefaultConfig\<close>

definition DOCKER_RESERVED_PORT :: uint16 where
  "DOCKER_RESERVED_PORT = 2375"

definition DOCKER_RESERVED_SSL_PORT :: uint16 where
  "DOCKER_RESERVED_SSL_PORT = 2376"

definition SSH_PORT :: uint16 where
  "SSH_PORT = 22"

definition AGENT_INTROSPECTION_PORT :: uint16 where
  "AGENT_INTROSPECTION_PORT = 51678"

definition DefaultConfig :: Config where
  "DefaultConfig = ConfigZero
     \<lparr>DockerEndpoint := ''unix:///var/run/docker.sock'',
      ReservedPorts := Some [SSH_PORT, DOCKER_RESERVED_PORT, DOCKER_RESERVED_SSL_PORT,
                             AGENT_INTROSPECTION_PORT],
      ReservedPortsUDP := Some [],
      DataDir := ''/data/'',
      DisableMetrics := False,
      DockerGraphPath := ''/var/lib/docker'',
      ReservedMemory := 0\<rparr>"

section \<open>The outside world\<close>

text \<open>
  What the providers read: the process environment, the file system as \<open>os.Open\<close>
  followed by \<open>ioutil.ReadAll\<close> sees it, and the answer of the EC2 metadata client
  (\<open>Inl\<close> the text of its error, \<open>Inr\<close> the region of the identity document).
\<close>

datatype FileState = OpenFails | ReadFails | Contents string

record World =
  Env :: "string \<rightharpoonup> string"
  Files :: "string \<Rightarrow> FileState"
  Metadata :: "string + string"

text \<open>\<open>os.Getenv\<close>: the value of the variable, empty when the variable is not set.\<close>

definition Getenv :: "World \<Rightarrow> string \<Rightarrow> string" where
  "Getenv w key = (case Env w key of None \<Rightarrow> [] | Some v \<Rightarrow> v)"

text \<open>
  A world with the given environment in which no configuration file can be opened and the
  metadata service does not answer; the concrete instances below start from it.
\<close>

definition worldWith :: "(string \<rightharpoonup> string) \<Rightarrow> World" where
  "worldWith e = \<lparr>Env = e, Files = (\<lambda>p. OpenFails), Metadata = Inl ''no route to host''\<rparr>"

section \<open>Library functions the providers call\<close>

text \<open>
  Modelled from the spec: \<open>utils.DefaultIfBlank\<close> is not among the sources. Section 4.4:
  the file provider "reads a path (from an environment override or a fixed default
  path)".
\<close>

definition DefaultIfBlank :: "string \<Rightarrow> string \<Rightarrow> string" where
  "DefaultIfBlank str default_value = (if length str = 0 then default_value else str)"

text \<open>
  Modelled from the spec: \<open>utils.ParseBool\<close> is not among the sources. Sections 4.4 and
  6: a "boolean-like string" parsed tolerantly, whose default is "overridable by [its] own
  explicit variable". The strings that parse are the ones Go's \<open>strconv.ParseBool\<close>
  accepts; every other string gives the default.
\<close>

definition boolTrue :: "string list" where
  "boolTrue = [''1'', ''t'', ''T'', ''TRUE'', ''true'', ''True'']"

definition boolFalse :: "string list" where
  "boolFalse = [''0'', ''f'', ''F'', ''FALSE'', ''false'', ''False'']"

definition ParseBool :: "string \<Rightarrow> bool \<Rightarrow> bool" where
  "ParseBool str default_value =
     (if str \<in> set boolTrue then True
      else if str \<in> set boolFalse then False
      else default_value)"

text \<open>
  \<open>strconv.ParseUint(s, 10, bitSize)\<close>: an empty string and a byte that is not a
  decimal digit are syntax errors; a value beyond \<open>2 ^ bitSize - 1\<close> is a range error,
  reported as soon as the prefix read so far exceeds the bound. The value returned
  next to an error is not used by any caller and is left out.
\<close>

datatype NumError = ErrSyntax | ErrRange

definition isDigit :: "char \<Rightarrow> bool" where
  "isDigit c = (c \<in> set ''0123456789'')"

definition digitVal :: "char \<Rightarrow> nat" where
  "digitVal c = of_char c - 48"

fun ParseUint_loop :: "string \<Rightarrow> nat \<Rightarrow> nat \<Rightarrow> NumError + nat" where
  "ParseUint_loop [] n bitSize = Inr n"
| "ParseUint_loop (c # cs) n bitSize =
     (if \<not> isDigit c then Inl ErrSyntax
      else if n \<ge> (2 ^ 64 - 1) div 10 + 1 then Inl ErrRange
      else
        (let n1 = n * 10 + digitVal c in
         if n1 > 2 ^ bitSize - 1 then Inl ErrRange
         else ParseUint_loop cs n1 bitSize))"

definition ParseUint :: "string \<Rightarrow> nat \<Rightarrow> NumError + nat" where
  "ParseUint s bitSize = (if s = [] then Inl ErrSyntax else ParseUint_loop s 0 bitSize)"

section \<open>The JSON scanner of \<open>encoding/json\<close>\<close>

text \<open>
  \<open>EnvironmentConfig\<close> decodes two variables with \<open>json.NewDecoder(...).Decode\<close> and
  \<open>FileConfig\<close> decodes the file with \<open>json.Unmarshal\<close>. Both first run the
  library's scanner, a state machine fed one byte at a time: its state is the current
  step function and a stack of the enclosing arrays and objects (the head of the list is
  the innermost), and each step answers with an opcode. The definitions follow
  \<open>scanner.go\<close> of the Go standard library state by state.
\<close>

datatype ParseState = parseObjectKey | parseObjectValue | parseArrayValue

datatype Opcode =
    scanContinue | scanBeginLiteral | scanBeginObject | scanObjectKey | scanObjectValue
  | scanEndObject | scanBeginArray | scanArrayValue | scanEndArray | scanSkipSpace
  | scanEnd | scanError

datatype Step =
    stateBeginValue | stateBeginValueOrEmpty | stateBeginStringOrEmpty | stateBeginString
  | stateEndValue | stateEndTop | stateInString | stateInStringEsc | stateInStringEscU
  | stateInStringEscU1 | stateInStringEscU12 | stateInStringEscU123
  | stateNeg | state1 | state0 | stateDot | stateDot0 | stateE | stateESign | stateE0
  | stateT | stateTr | stateTru | stateF | stateFa | stateFal | stateFals
  | stateN | stateNu | stateNul | stateError

type_synonym scanner = "Step \<times> ParseState list"

definition isSpaceJSON :: "char \<Rightarrow> bool" where
  "isSpaceJSON c = (c = CHR 0x20 \<or> c = CHR 0x09 \<or> c = CHR 0x0D \<or> c = CHR 0x0A)"

definition isHex :: "char \<Rightarrow> bool" where
  "isHex c = (c \<in> set ''0123456789abcdefABCDEF'')"

definition scan_err :: "ParseState list \<Rightarrow> Opcode \<times> scanner" where
  "scan_err ps = (scanError, (stateError, ps))"

definition stateEndTop_f :: "ParseState list \<Rightarrow> char \<Rightarrow> Opcode \<times> scanner" where
  "stateEndTop_f ps c =
     (if \<not> isSpaceJSON c then (scanEnd, (stateError, ps)) else (scanEnd, (stateEndTop, ps)))"

definition popParseState :: "ParseState list \<Rightarrow> Opcode \<Rightarrow> Opcode \<times> scanner" where
  "popParseState rest op =
     (if rest = [] then (op, (stateEndTop, rest)) else (op, (stateEndValue, rest)))"

definition stateEndValue_f :: "ParseState list \<Rightarrow> char \<Rightarrow> Opcode \<times> scanner" where
  "stateEndValue_f ps c =
     (case ps of
        [] \<Rightarrow> stateEndTop_f [] c
      | st # rest \<Rightarrow>
          if isSpaceJSON c then (scanSkipSpace, (stateEndValue, ps))
          else
            (case st of
               parseObjectKey \<Rightarrow>
                 if c = CHR '':'' then (scanObjectKey, (stateBeginValue, parseObjectValue # rest))
                 else scan_err ps
             | parseObjectValue \<Rightarrow>
                 if c = CHR '','' then (scanObjectValue, (stateBeginString, parseObjectKey # rest))
                 else if c = CHR ''}'' then popParseState rest scanEndObject
                 else scan_err ps
             | parseArrayValue \<Rightarrow>
                 if c = CHR '','' then (scanArrayValue, (stateBeginValue, ps))
                 else if c = CHR '']'' then popParseState rest scanEndArray
                 else scan_err ps))"

definition stateBeginValue_f :: "ParseState list \<Rightarrow> char \<Rightarrow> Opcode \<times> scanner" where
  "stateBeginValue_f ps c =
     (if isSpaceJSON c then (scanSkipSpace, (stateBeginValue, ps))
      else if c = CHR ''{'' then (scanBeginObject, (stateBeginStringOrEmpty, parseObjectKey # ps))
      else if c = CHR ''['' then (scanBeginArray, (stateBeginValueOrEmpty, parseArrayValue # ps))
      else if c = CHR 0x22 then (scanBeginLiteral, (stateInString, ps))
      else if c = CHR ''-'' then (scanBeginLiteral, (stateNeg, ps))
      else if c = CHR ''0'' then (scanBeginLiteral, (state0, ps))
      else if c = CHR ''t'' then (scanBeginLiteral, (stateT, ps))
      else if c = CHR ''f'' then (scanBeginLiteral, (stateF, ps))
      else if c = CHR ''n'' then (scanBeginLiteral, (stateN, ps))
      else if c \<in> set ''123456789'' then (scanBeginLiteral, (state1, ps))
      else scan_err ps)"

definition stateBeginString_f :: "ParseState list \<Rightarrow> char \<Rightarrow> Opcode \<times> scanner" where
  "stateBeginString_f ps c =
     (if isSpaceJSON c then (scanSkipSpace, (stateBeginString, ps))
      else if c = CHR 0x22 then (scanBeginLiteral, (stateInString, ps))
      else scan_err ps)"

definition stateE0_f :: "ParseState list \<Rightarrow> char \<Rightarrow> Opcode \<times> scanner" where
  "stateE0_f ps c =
     (if isDigit c then (scanContinue, (stateE0, ps)) else stateEndValue_f ps c)"

definition stateESign_f :: "ParseState list \<Rightarrow> char \<Rightarrow> Opcode \<times> scanner" where
  "stateESign_f ps c =
     (if isDigit c then (scanContinue, (stateE0, ps)) else scan_err ps)"

definition state0_f :: "ParseState list \<Rightarrow> char \<Rightarrow> Opcode \<times> scanner" where
  "state0_f ps c =
     (if c = CHR ''.'' then (scanContinue, (stateDot, ps))
      else if c = CHR ''e'' \<or> c = CHR ''E'' then (scanContinue, (stateE, ps))
      else stateEndValue_f ps c)"

text \<open>One step of the scanner: \<open>s.step(s, c)\<close>.\<close>

fun scan_step :: "scanner \<Rightarrow> char \<Rightarrow> Opcode \<times> scanner" where
  "scan_step (stateBeginValue, ps) c = stateBeginValue_f ps c"
| "scan_step (stateBeginValueOrEmpty, ps) c =
     (if isSpaceJSON c then (scanSkipSpace, (stateBeginValueOrEmpty, ps))
      else if c = CHR '']'' then stateEndValue_f ps c
      else stateBeginValue_f ps c)"
| "scan_step (stateBeginStringOrEmpty, ps) c =
     (if isSpaceJSON c then (scanSkipSpace, (stateBeginStringOrEmpty, ps))
      else if c = CHR ''}'' then
        (case ps of
           [] \<Rightarrow> stateEndValue_f ps c
         | st # rest \<Rightarrow> stateEndValue_f (parseObjectValue # rest) c)
      else stateBeginString_f ps c)"
| "scan_step (stateBeginString, ps) c = stateBeginString_f ps c"
| "scan_step (stateEndValue, ps) c = stateEndValue_f ps c"
| "scan_step (stateEndTop, ps) c = stateEndTop_f ps c"
| "scan_step (stateInString, ps) c =
     (if c = CHR 0x22 then (scanContinue, (stateEndValue, ps))
      else if c = CHR 0x5C then (scanContinue, (stateInStringEsc, ps))
      else if (of_char c :: nat) < 0x20 then scan_err ps
      else (scanContinue, (stateInString, ps)))"
| "scan_step (stateInStringEsc, ps) c =
     (if c \<in> set [CHR ''b'', CHR ''f'', CHR ''n'', CHR ''r'', CHR ''t'', CHR 0x5C, CHR ''/'', CHR 0x22]
      then (scanContinue, (stateInString, ps))
      else if c = CHR ''u'' then (scanContinue, (stateInStringEscU, ps))
      else scan_err ps)"
| "scan_step (stateInStringEscU, ps) c =
     (if isHex c then (scanContinue, (stateInStringEscU1, ps)) else scan_err ps)"
| "scan_step (stateInStringEscU1, ps) c =
     (if isHex c then (scanContinue, (stateInStringEscU12, ps)) else scan_err ps)"
| "scan_step (stateInStringEscU12, ps) c =
     (if isHex c then (scanContinue, (stateInStringEscU123, ps)) else scan_err ps)"
| "scan_step (stateInStringEscU123, ps) c =
     (if isHex c then (scanContinue, (stateInString, ps)) else scan_err ps)"
| "scan_step (stateNeg, ps) c =
     (if c = CHR ''0'' then (scanContinue, (state0, ps))
      else if c \<in> set ''123456789'' then (scanContinue, (state1, ps))
      else scan_err ps)"
| "scan_step (state1, ps) c =
     (if isDigit c then (scanContinue, (state1, ps)) else state0_f ps c)"
| "scan_step (state0, ps) c = state0_f ps c"
| "scan_step (stateDot, ps) c =
     (if isDigit c then (scanContinue, (stateDot0, ps)) else scan_err ps)"
| "scan_step (stateDot0, ps) c =
     (if isDigit c then (scanContinue, (stateDot0, ps))
      else if c = CHR ''e'' \<or> c = CHR ''E'' then (scanContinue, (stateE, ps))
      else stateEndValue_f ps c)"
| "scan_step (stateE, ps) c =
     (if c = CHR ''+'' \<or> c = CHR ''-'' then (scanContinue, (stateESign, ps))
      else stateESign_f ps c)"
| "scan_step (stateESign, ps) c = stateESign_f ps c"
| "scan_step (stateE0, ps) c = stateE0_f ps c"
| "scan_step (stateT, ps) c =
     (if c = CHR ''r'' then (scanContinue, (stateTr, ps)) else scan_err ps)"
| "scan_step (stateTr, ps) c =
     (if c = CHR ''u'' then (scanContinue, (stateTru, ps)) else scan_err ps)"
| "scan_step (stateTru, ps) c =
     (if c = CHR ''e'' then (scanContinue, (stateEndValue, ps)) else scan_err ps)"
| "scan_step (stateF, ps) c =
     (if c = CHR ''a'' then (scanContinue, (stateFa, ps)) else scan_err ps)"
| "scan_step (stateFa, ps) c =
     (if c = CHR ''l'' then (scanContinue, (stateFal, ps)) else scan_err ps)"
| "scan_step (stateFal, ps) c =
     (if c = CHR ''s'' then (scanContinue, (stateFals, ps)) else scan_err ps)"
| "scan_step (stateFals, ps) c =
     (if c = CHR ''e'' then (scanContinue, (stateEndValue, ps)) else scan_err ps)"
| "scan_step (stateN, ps) c =
     (if c = CHR ''u'' then (scanContinue, (stateNu, ps)) else scan_err ps)"
| "scan_step (stateNu, ps) c =
     (if c = CHR ''l'' then (scanContinue, (stateNul, ps)) else scan_err ps)"
| "scan_step (stateNul, ps) c =
     (if c = CHR ''l'' then (scanContinue, (stateEndValue, ps)) else scan_err ps)"
| "scan_step (stateError, ps) c = (scanError, (stateError, ps))"

text \<open>\<open>scanner.reset\<close>.\<close>

definition scan_reset :: scanner where
  "scan_reset = (stateBeginValue, [])"

section \<open>Decoding with \<open>encoding/json\<close>\<close>

datatype DecodeErr = EOF | ErrUnexpectedEOF | SyntaxError | UnmarshalTypeError

text \<open>
  \<open>Decoder.readValue\<close>: feeds the buffer to the scanner until one value is complete and
  returns its length. At the end of the input a value that a space would complete is
  complete; otherwise the error is \<open>io.ErrUnexpectedEOF\<close> when the buffer holds a byte
  that is not a space (\<open>ns\<close>) and \<open>io.EOF\<close> when it does not.
\<close>

fun readValue_loop :: "bool \<Rightarrow> scanner \<Rightarrow> string \<Rightarrow> nat \<Rightarrow> DecodeErr + nat" where
  "readValue_loop ns sc [] n =
     (if fst (scan_step sc (CHR 0x20)) = scanEnd then Inr n
      else if ns then Inl ErrUnexpectedEOF
      else Inl EOF)"
| "readValue_loop ns sc (c # cs) n =
     (case scan_step sc c of
        (op, sc') \<Rightarrow>
          if op = scanEnd then Inr n
          else if (op = scanEndObject \<or> op = scanEndArray)
                  \<and> fst (stateEndValue_f (snd sc') (CHR 0x20)) = scanEnd then Inr (n + 1)
          else if op = scanError then Inl SyntaxError
          else readValue_loop ns sc' cs (n + 1))"

definition nonSpace :: "string \<Rightarrow> bool" where
  "nonSpace buf = list_ex (\<lambda>c. \<not> isSpaceJSON c) buf"

definition readValue :: "string \<Rightarrow> DecodeErr + nat" where
  "readValue buf = readValue_loop (nonSpace buf) scan_reset buf 0"

text \<open>
  The elements of the top-level array of a scanned value: the text of every literal that
  stands directly inside it, and the opening bracket or brace of every nested array or
  object. \<open>cur\<close> is the element being read.
\<close>

definition closeElem :: "string option \<Rightarrow> string list \<Rightarrow> string list" where
  "closeElem cur acc = (case cur of None \<Rightarrow> acc | Some t \<Rightarrow> acc @ [t])"

fun elems :: "scanner \<Rightarrow> string \<Rightarrow> string option \<Rightarrow> string list \<Rightarrow> string list" where
  "elems sc [] cur acc = closeElem cur acc"
| "elems sc (c # cs) cur acc =
     (case scan_step sc c of
        (op, sc') \<Rightarrow>
          if length (snd sc) = 1 then
            (if op = scanBeginLiteral \<or> op = scanBeginArray \<or> op = scanBeginObject
             then elems sc' cs (Some [c]) acc
             else if op = scanContinue
             then elems sc' cs (map_option (\<lambda>t. t @ [c]) cur) acc
             else elems sc' cs None (closeElem cur acc))
          else elems sc' cs cur acc)"

text \<open>
  Storing one element into a \<open>uint16\<close>: \<open>null\<close> leaves the zero value and is no error;
  a number is read with \<open>strconv.ParseUint(s, 10, 64)\<close> and must not overflow 16 bits;
  everything else (a string, a boolean, an array, an object, a number that does not parse
  or overflows) leaves the zero value and is an \<open>UnmarshalTypeError\<close>, after which
  decoding goes on.
\<close>

definition decodeElem :: "string \<Rightarrow> uint16 \<times> bool" where
  "decodeElem t =
     (case t of
        [] \<Rightarrow> (0, True)
      | c # _ \<Rightarrow>
          if c = CHR ''n'' then (0, False)
          else if c = CHR ''['' \<or> c = CHR ''{'' \<or> c = CHR 0x22 \<or> c = CHR ''t'' \<or> c = CHR ''f''
          then (0, True)
          else
            (case ParseUint t 64 of
               Inl e \<Rightarrow> (0, True)
             | Inr n \<Rightarrow> if n > 65535 then (0, True) else (of_nat n, False)))"

text \<open>
  \<open>decodeState.unmarshal\<close> of a complete value into a nil \<open>[]uint16\<close>: an array gives
  a slice with one entry per element (of length 0 for \<open>[]\<close>), \<open>null\<close> leaves the
  slice nil, and any other value is an \<open>UnmarshalTypeError\<close> that stores nothing. The
  error returned is the first one saved.
\<close>

definition unmarshalUint16s :: "string \<Rightarrow> DecodeErr option \<times> uint16 list option" where
  "unmarshalUint16s data =
     (case dropWhile isSpaceJSON data of
        [] \<Rightarrow> (Some SyntaxError, None)
      | c # _ \<Rightarrow>
          if c = CHR ''['' then
            (let es = map decodeElem (elems scan_reset data None []) in
             (if list_ex snd es then Some UnmarshalTypeError else None, Some (map fst es)))
          else if c = CHR ''n'' then (None, None)
          else (Some UnmarshalTypeError, None))"

text \<open>
  \<open>json.NewDecoder(strings.NewReader(s)).Decode(&ports)\<close> with \<open>ports\<close> a nil
  \<open>[]uint16\<close>: the error and what \<open>ports\<close> holds afterwards.
\<close>

definition DecodeUint16s :: "string \<Rightarrow> DecodeErr option \<times> uint16 list option" where
  "DecodeUint16s s =
     (case readValue s of
        Inl e \<Rightarrow> (Some e, None)
      | Inr n \<Rightarrow> unmarshalUint16s (take n s))"

text \<open>\<open>checkValid\<close> with \<open>scanner.eof\<close>: whether the data is one JSON value.\<close>

definition scan_eof :: "scanner \<Rightarrow> bool" where
  "scan_eof sc =
     (if fst sc = stateError then False
      else if fst sc = stateEndTop then True
      else fst (snd (scan_step sc (CHR 0x20))) = stateEndTop)"

fun checkValid_loop :: "scanner \<Rightarrow> string \<Rightarrow> bool" where
  "checkValid_loop sc [] = scan_eof sc"
| "checkValid_loop sc (c # cs) =
     (case scan_step sc c of
        (op, sc') \<Rightarrow> if op = scanError then False else checkValid_loop sc' cs)"

definition checkValid :: "string \<Rightarrow> bool" where
  "checkValid data = checkValid_loop scan_reset data"

text \<open>
  \<open>json.Unmarshal(data, &config)\<close> with \<open>config\<close> the empty record: the result is
  whether an error is returned, and the record afterwards. The syntax check runs over all
  of the data first, and on a syntax error nothing is stored. What a valid document
  stores depends on the declaration of \<open>Config\<close> (the types and JSON names of its
  fields), which is not among the sources: \<open>decodeStruct\<close> is that part, a parameter.
\<close>

definition Unmarshal :: "(string \<Rightarrow> bool \<times> Config) \<Rightarrow> string \<Rightarrow> bool \<times> Config" where
  "Unmarshal decodeStruct data =
     (if \<not> checkValid data then (True, ConfigZero) else decodeStruct data)"

section \<open>The providers\<close>

definition FileConfig :: "(string \<Rightarrow> bool \<times> Config) \<Rightarrow> World \<Rightarrow> Config \<times> Effect list" where
  "FileConfig decodeStruct w =
     (let config_file = DefaultIfBlank (Getenv w ''ECS_AGENT_CONFIG_FILE_PATH'')
                          ''/etc/ecs_container_agent/config.json''
      in case Files w config_file of
           OpenFails \<Rightarrow> (ConfigZero, [OsOpen config_file])
         | ReadFails \<Rightarrow>
             (ConfigZero,
              [OsOpen config_file, Log LvlError ''Unable to read config file'' [(''err'', CErr)]])
         | Contents data \<Rightarrow>
             if TrimSpace data = [] then (ConfigZero, [OsOpen config_file])
             else
               (case Unmarshal decodeStruct data of
                  (err, config) \<Rightarrow>
                    (if ZeroOrNil (VString (Cluster config))
                        \<and> \<not> ZeroOrNil (VString (ClusterArn config))
                     then config\<lparr>Cluster := ClusterArn config\<rparr>
                     else config,
                     OsOpen config_file #
                       (if err then [Log LvlError ''Error reading config json data'' [(''err'', CErr)]]
                        else []))))"

text \<open>
  The warning \<open>EnvironmentConfig\<close> logs for a variable it cannot parse; the message
  ends with what was expected.
\<close>

definition invalidFormat :: "string \<Rightarrow> string \<Rightarrow> Effect" where
  "invalidFormat var expected =
     Log LvlWarn (''Invalid format for '' @ [CHR 0x22] @ var @ [CHR 0x22]
                    @ '' environment variable; expected '' @ expected)
       [(''err'', CErr)]"

text \<open>The test \<open>err != io.EOF && err != nil\<close> after each of the two port decoders.\<close>

definition portsWarning :: "string \<Rightarrow> DecodeErr option \<Rightarrow> Effect list" where
  "portsWarning var err =
     (if err \<noteq> Some EOF \<and> err \<noteq> None
      then [invalidFormat var ''a JSON array like [1,2,3].'']
      else [])"

text \<open>
  The block of \<open>EnvironmentConfig\<close> that reads \<open>ECS_RESERVED_MEMORY\<close>: the value of
  \<open>reservedMemory\<close> and what it logs. \<open>uint16(reservedMemory64)\<close> is \<open>of_nat\<close>.
\<close>

definition parseReservedMemory :: "string \<Rightarrow> uint16 \<times> Effect list" where
  "parseReservedMemory reservedMemoryEnv =
     (if reservedMemoryEnv = [] then (0, [])
      else
        (case ParseUint reservedMemoryEnv 16 of
           Inl err \<Rightarrow> (0, [invalidFormat ''ECS_RESERVED_MEMORY'' ''unsigned integer.''])
         | Inr reservedMemory64 \<Rightarrow> (of_nat reservedMemory64, [])))"

definition EnvironmentConfig :: "World \<Rightarrow> Config \<times> Effect list" where
  "EnvironmentConfig w =
     (let endpoint = Getenv w ''ECS_BACKEND_HOST'';
          clusterRef = Getenv w ''ECS_CLUSTER'';
          awsRegion = Getenv w ''AWS_DEFAULT_REGION'';
          dockerEndpoint = Getenv w ''DOCKER_HOST'';
          engineAuthType = Getenv w ''ECS_ENGINE_AUTH_TYPE'';
          engineAuthData = Getenv w ''ECS_ENGINE_AUTH_DATA'';
          engineLogDriver = Getenv w ''DOCKER_LOG_DRIVER'';
          engineLogOpts = Getenv w ''DOCKER_LOG_OPTS'';
          dataDir = Getenv w ''ECS_DATADIR'';
          checkpoint = (if dataDir \<noteq> [] then ParseBool (Getenv w ''ECS_CHECKPOINT'') True
                        else ParseBool (Getenv w ''ECS_CHECKPOINT'') False);
          reservedPortEnv = Getenv w ''ECS_RESERVED_PORTS'';
          (err, reservedPorts) = DecodeUint16s reservedPortEnv;
          lg1 = portsWarning ''ECS_RESERVED_PORTS'' err;
          reservedPortUDPEnv = Getenv w ''ECS_RESERVED_PORTS_UDP'';
          (errUDP, reservedPortsUDP) = DecodeUint16s reservedPortUDPEnv;
          lg2 = portsWarning ''ECS_RESERVED_PORTS_UDP'' errUDP;
          updateDownloadDir = Getenv w ''ECS_UPDATE_DOWNLOAD_DIR'';
          updatesEnabled = ParseBool (Getenv w ''ECS_UPDATES_ENABLED'') False;
          disableMetrics = ParseBool (Getenv w ''ECS_DISABLE_METRICS'') False;
          dockerGraphPath = Getenv w ''ECS_DOCKER_GRAPHPATH'';
          reservedMemoryEnv = Getenv w ''ECS_RESERVED_MEMORY'';
          (reservedMemory, lg3) = parseReservedMemory reservedMemoryEnv
      in (ConfigZero
            \<lparr>Cluster := clusterRef,
             APIEndpoint := endpoint,
             AWSRegion := awsRegion,
             DockerEndpoint := dockerEndpoint,
             ReservedPorts := reservedPorts,
             ReservedPortsUDP := reservedPortsUDP,
             DataDir := dataDir,
             Checkpoint := checkpoint,
             EngineAuthType := engineAuthType,
             EngineAuthData := Some engineAuthData,
             UpdatesEnabled := updatesEnabled,
             UpdateDownloadDir := updateDownloadDir,
             DisableMetrics := disableMetrics,
             DockerGraphPath := dockerGraphPath,
             ReservedMemory := reservedMemory,
             EngineLogDriver := engineLogDriver,
             EngineLogOpts := engineLogOpts\<rparr>,
          lg1 @ lg2 @ lg3))"

definition EC2MetadataConfig :: "World \<Rightarrow> Config \<times> Effect list" where
  "EC2MetadataConfig w =
     (case Metadata w of
        Inl err \<Rightarrow>
          (ConfigZero,
           [InstanceIdentityDocument,
            Log LvlCrit (''Unable to communicate with EC2 Metadata service to infer region: '' @ err) []])
      | Inr region \<Rightarrow> (ConfigZero\<lparr>AWSRegion := region\<rparr>, [InstanceIdentityDocument]))"

section \<open>NewConfig\<close>

text \<open>
  The deferred function of \<open>NewConfig\<close>: it runs when \<open>NewConfig\<close> returns, mutates the
  record behind the returned pointer and overwrites the named result \<open>err\<close>.
\<close>

definition NewConfig_deferred :: "Tags \<Rightarrow> Config \<Rightarrow> (Config \<times> string option \<times> Effect list) option" where
  "NewConfig_deferred tag config =
     (case TrimWhitespace tag config of
        None \<Rightarrow> None
      | Some (config1, lg1) \<Rightarrow>
          (case CheckMissingAndDepreciated tag config1 of
             (err, lg2) \<Rightarrow>
               (case Merge config1 DefaultConfig of
                  None \<Rightarrow> None
                | Some config2 \<Rightarrow> Some (config2, err, lg1 @ lg2))))"

text \<open>
  The statements of \<open>NewConfig\<close> between the \<open>defer\<close> and the \<open>return\<close>, from the record
  \<open>ctmp\<close> that \<open>EnvironmentConfig\<close> produced: the record the deferred function will
  receive, and the trace.
\<close>

definition NewConfig_sources ::
  "(string \<Rightarrow> bool \<times> Config) \<Rightarrow> World \<Rightarrow> Config \<Rightarrow> (Config \<times> Effect list) option" where
  "NewConfig_sources decodeStruct w ctmp =
     (if Complete ctmp then Some (ctmp, [])
      else
        (case FileConfig decodeStruct w of
           (fc, lg1) \<Rightarrow>
             (case Merge ctmp fc of
                None \<Rightarrow> None
              | Some config \<Rightarrow>
                  if AWSRegion config = [] then
                    (case EC2MetadataConfig w of
                       (mc, lg2) \<Rightarrow>
                         (case Merge config mc of
                            None \<Rightarrow> None
                          | Some config' \<Rightarrow> Some (config', lg1 @ lg2)))
                  else Some (config, lg1))))"

definition NewConfig_body ::
  "Tags \<Rightarrow> (string \<Rightarrow> bool \<times> Config) \<Rightarrow> World \<Rightarrow> Config \<Rightarrow> (Config \<times> string option \<times> Effect list) option" where
  "NewConfig_body tag decodeStruct w ctmp =
     (case NewConfig_sources decodeStruct w ctmp of
        None \<Rightarrow> None
      | Some (config, lg1) \<Rightarrow>
          (case NewConfig_deferred tag config of
             None \<Rightarrow> None
           | Some (config', err, lg2) \<Rightarrow> Some (config', err, lg1 @ lg2)))"

text \<open>
  \<open>NewConfig\<close>: the record behind the returned pointer, the returned error and the
  trace; \<open>None\<close> is a panic.
\<close>

definition NewConfig ::
  "Tags \<Rightarrow> (string \<Rightarrow> bool \<times> Config) \<Rightarrow> World \<Rightarrow> (Config \<times> string option \<times> Effect list) option" where
  "NewConfig tag decodeStruct w =
     (case EnvironmentConfig w of
        (ctmp, lg0) \<Rightarrow>
          (case NewConfig_body tag decodeStruct w ctmp of
             None \<Rightarrow> None
           | Some (config, err, lg) \<Rightarrow> Some (config, err, lg0 @ lg)))"

section \<open>Properties of the reflective view\<close>

lemma length_fieldValues: "length (fieldValues c) = NumField"
  by (simp add: fieldValues_def NumField_def)

lemma index_cases:
  assumes "idx < NumField"
  shows "idx = 0 \<or> idx = 1 \<or> idx = 2 \<or> idx = 3 \<or> idx = 4 \<or> idx = 5 \<or> idx = 6
     \<or> idx = 7 \<or> idx = 8 \<or> idx = 9 \<or> idx = 10 \<or> idx = 11 \<or> idx = 12 \<or> idx = 13
     \<or> idx = 14 \<or> idx = 15 \<or> idx = 16 \<or> idx = 17"
  using assms unfolding NumField_def by arith

lemma TypeOf_Field: "i < NumField \<Longrightarrow> TypeOf (GetField i a) = TypeOf (GetField i b)"
  by (drule index_cases) (auto simp: GetField_def fieldValues_def)

lemma SetField_fieldValues:
  "SetField i v c = Some c' \<Longrightarrow> fieldValues c' = (fieldValues c)[i := v]"
  by (cases v) (auto simp: SetField_def fieldValues_def split: if_splits)

lemma SetField_Some:
  "i < NumField \<Longrightarrow> TypeOf v = TypeOf (GetField i c) \<Longrightarrow> \<exists>c'. SetField i v c = Some c'"
  by (drule index_cases, cases v) (auto simp: SetField_def GetField_def fieldValues_def)

lemma Field_SetField:
  "SetField i v c = Some c' \<Longrightarrow> j < NumField \<Longrightarrow>
     GetField j c' = (if j = i then v else GetField j c)"
  by (simp add: GetField_def SetField_fieldValues length_fieldValues)

lemma fieldValues_inject: "fieldValues a = fieldValues b \<Longrightarrow> a = b"
  by (cases a, cases b) (simp add: fieldValues_def)

lemma Merge_loop_result:
  "\<forall>i\<in>set is. i < NumField \<Longrightarrow>
     \<exists>m. Merge_loop is l r = Some m \<and>
       (\<forall>j<NumField. GetField j m =
          (if j \<in> set is \<and> ZeroOrNil (GetField j l) then GetField j r else GetField j l))"
proof (induction "is" arbitrary: l)
  case Nil
  then show ?case by simp
next
  case (Cons i "is")
  show ?case
  proof (cases "ZeroOrNil (GetField i l)")
    case False
    with Cons.IH [of l] Cons.prems show ?thesis by auto
  next
    case True
    from Cons.prems have i: "i < NumField" by simp
    from SetField_Some [OF i TypeOf_Field [OF i]]
    obtain l' where l': "SetField i (GetField i r) l = Some l'" by blast
    have upd: "\<And>j. j < NumField \<Longrightarrow>
        GetField j l' = (if j = i then GetField i r else GetField j l)"
      using Field_SetField [OF l'] by simp
    from Cons.IH [of l'] Cons.prems
    obtain m where m: "Merge_loop is l' r = Some m"
      and mf: "\<And>j. j < NumField \<Longrightarrow> GetField j m =
          (if j \<in> set is \<and> ZeroOrNil (GetField j l') then GetField j r else GetField j l')"
      by auto
    have "Merge_loop (i # is) l r = Some m"
      using True l' m by simp
    moreover have "\<forall>j<NumField. GetField j m =
        (if j \<in> set (i # is) \<and> ZeroOrNil (GetField j l) then GetField j r else GetField j l)"
      using mf upd True by auto
    ultimately show ?thesis by blast
  qed
qed

lemma Merge_result:
  "\<exists>m. Merge lhs rhs = Some m \<and>
     (\<forall>j<NumField. GetField j m =
        (if ZeroOrNil (GetField j lhs) then GetField j rhs else GetField j lhs))"
  using Merge_loop_result [of "[0..<NumField]" lhs rhs] by (auto simp: Merge_def)

lemma Merge_loop_nonempty:
  "\<forall>i\<in>set is. \<not> ZeroOrNil (GetField i l) \<Longrightarrow> Merge_loop is l r = Some l"
  by (induction "is") auto

lemma Complete_loop_iff:
  "Complete_loop is cfg = (\<forall>i\<in>set is. \<not> ZeroOrNil (GetField i cfg))"
  by (induction "is") auto

lemma Complete_iff: "Complete cfg = (\<forall>i<NumField. \<not> ZeroOrNil (GetField i cfg))"
  by (auto simp: Complete_def Complete_loop_iff)

lemma Merge_Complete_left: "Complete lhs \<Longrightarrow> Merge lhs rhs = Some lhs"
  by (simp add: Merge_def Complete_iff Merge_loop_nonempty)

lemma all_less_NumField:
  "(\<forall>i<NumField. P i) =
     (P 0 \<and> P 1 \<and> P 2 \<and> P 3 \<and> P 4 \<and> P 5 \<and> P 6 \<and> P 7 \<and> P 8 \<and> P 9 \<and> P 10
      \<and> P 11 \<and> P 12 \<and> P 13 \<and> P 14 \<and> P 15 \<and> P 16 \<and> P 17)"
proof
  assume "\<forall>i<NumField. P i"
  then show "P 0 \<and> P 1 \<and> P 2 \<and> P 3 \<and> P 4 \<and> P 5 \<and> P 6 \<and> P 7 \<and> P 8 \<and> P 9 \<and> P 10
      \<and> P 11 \<and> P 12 \<and> P 13 \<and> P 14 \<and> P 15 \<and> P 16 \<and> P 17"
    by (simp add: NumField_def)
next
  assume r: "P 0 \<and> P 1 \<and> P 2 \<and> P 3 \<and> P 4 \<and> P 5 \<and> P 6 \<and> P 7 \<and> P 8 \<and> P 9 \<and> P 10
      \<and> P 11 \<and> P 12 \<and> P 13 \<and> P 14 \<and> P 15 \<and> P 16 \<and> P 17"
  show "\<forall>i<NumField. P i"
  proof (intro allI impI)
    fix i assume "i < NumField"
    from index_cases [OF this] r show "P i" by (elim disjE) simp_all
  qed
qed

lemma upt_NumField:
  "[0..<NumField] = [0, 1, 2, 3, 4, 5, 6, 7, 8, 9, 10, 11, 12, 13, 14, 15, 16, 17]"
  unfolding NumField_def by (simp add: upt_rec)

lemma Complete_explicit:
  "Complete c =
     (ClusterArn c \<noteq> [] \<and> Cluster c \<noteq> [] \<and> APIEndpoint c \<noteq> [] \<and> DockerEndpoint c \<noteq> []
      \<and> AWSRegion c \<noteq> [] \<and> ReservedPorts c \<noteq> None \<and> ReservedPorts c \<noteq> Some []
      \<and> ReservedPortsUDP c \<noteq> None \<and> ReservedPortsUDP c \<noteq> Some [] \<and> DataDir c \<noteq> []
      \<and> Checkpoint c \<and> EngineAuthType c \<noteq> [] \<and> EngineAuthData c \<noteq> None
      \<and> EngineAuthData c \<noteq> Some [] \<and> UpdatesEnabled c \<and> UpdateDownloadDir c \<noteq> []
      \<and> DisableMetrics c \<and> DockerGraphPath c \<noteq> [] \<and> ReservedMemory c \<noteq> 0
      \<and> EngineLogDriver c \<noteq> [] \<and> EngineLogOpts c \<noteq> [])"
  unfolding Complete_iff all_less_NumField
  by (auto simp: GetField_def fieldValues_def split: option.splits)

section \<open>Merge is field-wise and left-biased\<close>

text \<open>
  Claim C2. For all records \<open>A\<close> and \<open>B\<close>, \<open>Merge\<close> returns (it does not panic), and
  every field of the result is \<open>B\<close>'s field where \<open>A\<close>'s was empty and \<open>A\<close>'s own field
  otherwise; in particular no non-empty field of \<open>A\<close> is overwritten. \<open>B\<close> is a by-value
  parameter that the loop only reads, so the caller's record cannot change: in the model
  \<open>Merge\<close> returns the new left record and nothing else.
\<close>

theorem C2_Merge_fieldwise:
  "\<exists>m. Merge A B = Some m \<and>
     (\<forall>i<NumField. GetField i m =
        (if ZeroOrNil (GetField i A) then GetField i B else GetField i A))"
  by (rule Merge_result)

theorem C2_Merge_fieldwise_witness:
  "\<exists>m. Merge (ConfigZero\<lparr>Cluster := ''a''\<rparr>) (ConfigZero\<lparr>Cluster := ''b'', AWSRegion := ''r''\<rparr>) = Some m
     \<and> GetField 1 m = VString ''a'' \<and> GetField 4 m = VString ''r''"
proof -
  from C2_Merge_fieldwise
    [of "ConfigZero\<lparr>Cluster := ''a''\<rparr>" "ConfigZero\<lparr>Cluster := ''b'', AWSRegion := ''r''\<rparr>"]
  obtain m where m: "Merge (ConfigZero\<lparr>Cluster := ''a''\<rparr>)
        (ConfigZero\<lparr>Cluster := ''b'', AWSRegion := ''r''\<rparr>) = Some m"
    and f: "\<And>i. i < NumField \<Longrightarrow> GetField i m =
        (if ZeroOrNil (GetField i (ConfigZero\<lparr>Cluster := ''a''\<rparr>))
         then GetField i (ConfigZero\<lparr>Cluster := ''b'', AWSRegion := ''r''\<rparr>)
         else GetField i (ConfigZero\<lparr>Cluster := ''a''\<rparr>))"
    by blast
  have "GetField 1 m = VString ''a''"
    using f [of 1] by (simp add: NumField_def GetField_def fieldValues_def ConfigZero_def)
  moreover have "GetField 4 m = VString ''r''"
    using f [of 4] by (simp add: NumField_def GetField_def fieldValues_def ConfigZero_def)
  ultimately show ?thesis using m by blast
qed

text \<open>
  Claim C6. A complete left record stays complete under \<open>Merge\<close>, whatever the right
  record holds (the merge returns the left record itself).
\<close>

theorem C6_Complete_Merge:
  "Complete A \<Longrightarrow> \<exists>m. Merge A B = Some m \<and> Complete m"
  by (simp add: Merge_Complete_left)

text \<open>A record with no empty field, for the concrete instances below.\<close>

definition FullConfig :: Config where
  "FullConfig = \<lparr>ClusterArn = ''arn'', Cluster = ''c'', APIEndpoint = ''e'', DockerEndpoint = ''d'',
     AWSRegion = ''r'', ReservedPorts = Some [22], ReservedPortsUDP = Some [53], DataDir = ''/d'',
     Checkpoint = True, EngineAuthType = ''t'', EngineAuthData = Some ''x'',
     UpdatesEnabled = True, UpdateDownloadDir = ''/u'', DisableMetrics = True,
     DockerGraphPath = ''/g'', ReservedMemory = 1, EngineLogDriver = ''l'', EngineLogOpts = ''o''\<rparr>"

lemma Complete_FullConfig: "Complete FullConfig"
  by (simp add: Complete_explicit FullConfig_def)

theorem C6_Complete_Merge_witness:
  "Complete FullConfig \<and> (\<exists>m. Merge FullConfig DefaultConfig = Some m \<and> Complete m)"
  using C6_Complete_Merge [OF Complete_FullConfig, of DefaultConfig] Complete_FullConfig
  by simp

section \<open>The required-field check\<close>

text \<open>
  The fields the check reports, in the words of the specification: the identifiers, in
  declaration order, of the fields that are empty and tagged \<open>missing:"fatal"\<close>.
\<close>

definition fatalMissing :: "Tags \<Rightarrow> Config \<Rightarrow> string list" where
  "fatalMissing tag cfg =
     map Name (filter (\<lambda>i. ZeroOrNil (GetField i cfg) \<and> tag i ''missing'' = ''fatal'')
                 [0..<NumField])"

lemma Check_loop_fatal:
  "fst (Check_loop tag is cfg ff lg) =
     ff @ map Name (filter (\<lambda>i. ZeroOrNil (GetField i cfg) \<and> tag i ''missing'' = ''fatal'') is)"
  by (induction "is" arbitrary: ff lg) (auto simp: Let_def)

lemma CheckMissing_error:
  "fst (CheckMissingAndDepreciated tag cfg) =
     (if fatalMissing tag cfg = [] then None
      else Some (''Missing required fields: '' @ Join (fatalMissing tag cfg) '', ''))"
proof -
  obtain ff lg where r: "Check_loop tag [0..<NumField] cfg [] [] = (ff, lg)"
    by (cases "Check_loop tag [0..<NumField] cfg [] []")
  from Check_loop_fatal [of tag "[0..<NumField]" cfg "[]" "[]"] r
  have "ff = fatalMissing tag cfg" by (simp add: fatalMissing_def)
  with r show ?thesis by (simp add: CheckMissingAndDepreciated_def)
qed

text \<open>
  Claim C3. \<open>CheckMissingAndDepreciated\<close> returns an error exactly when some field is
  empty and tagged fatal, and the one error it returns carries, after the prefix
  "Missing required fields: ", the identifiers of all such fields joined by ", ".
\<close>

theorem C3_required_field_check:
  "fst (CheckMissingAndDepreciated tag cfg) =
     (if fatalMissing tag cfg = [] then None
      else Some (''Missing required fields: '' @ Join (fatalMissing tag cfg) '', ''))
   \<and> ((fst (CheckMissingAndDepreciated tag cfg) \<noteq> None) =
        (\<exists>i<NumField. ZeroOrNil (GetField i cfg) \<and> tag i ''missing'' = ''fatal''))"
proof -
  have "(fatalMissing tag cfg \<noteq> []) =
      (\<exists>i<NumField. ZeroOrNil (GetField i cfg) \<and> tag i ''missing'' = ''fatal'')"
    by (auto simp: fatalMissing_def filter_empty_conv)
  then show ?thesis by (auto simp: CheckMissing_error)
qed

theorem C3_required_field_check_witness:
  "fst (CheckMissingAndDepreciated
          (\<lambda>i k. if (i = 1 \<or> i = 4) \<and> k = ''missing'' then ''fatal'' else [])
          (ConfigZero\<lparr>DataDir := ''/data/''\<rparr>))
     = Some ''Missing required fields: Cluster, AWSRegion''"
  using C3_required_field_check
    [of "\<lambda>i k. if (i = 1 \<or> i = 4) \<and> k = ''missing'' then ''fatal'' else []"
        "ConfigZero\<lparr>DataDir := ''/data/''\<rparr>"]
  by (simp add: fatalMissing_def upt_NumField GetField_def fieldValues_def ConfigZero_def
      Name_def names_def)

section \<open>The trim pass\<close>

text \<open>
  What the pass does to one value, in the words of the specification: a string is
  replaced by itself without leading and trailing whitespace, any other value stays.
\<close>

definition trimValue :: "Value \<Rightarrow> Value" where
  "trimValue v = (case v of VString s \<Rightarrow> VString (TrimSpace s) | _ \<Rightarrow> v)"

text \<open>The warning the pass logs for field \<open>i\<close> when its value is not a string.\<close>

definition trimWarning :: "Config \<Rightarrow> nat \<Rightarrow> Effect" where
  "trimWarning cfg i =
     Log LvlWarn ''Cannot trim non-string field''
       [(''type'', CStr (KindString (KindOf (GetField i cfg)))), (''index'', CInt i)]"

lemma KindOf_TypeOf: "TypeOf u = TypeOf v \<Longrightarrow> KindOf u = KindOf v"
  by (cases u; cases v) simp_all

lemma KindOf_Field: "i < NumField \<Longrightarrow> KindOf (GetField i a) = KindOf (GetField i b)"
  by (rule KindOf_TypeOf) (rule TypeOf_Field)

lemma Trim_loop_result:
  "distinct is \<Longrightarrow> \<forall>i\<in>set is. i < NumField \<Longrightarrow>
     \<exists>c'. Trim_loop tag is cfg lg =
            Some (c', lg @ map (trimWarning cfg)
                           (filter (\<lambda>i. tag i ''trim'' \<noteq> [] \<and> KindOf (GetField i cfg) \<noteq> KString) is))
        \<and> (\<forall>j<NumField. GetField j c' =
              (if j \<in> set is \<and> tag j ''trim'' \<noteq> [] then trimValue (GetField j cfg)
               else GetField j cfg))"
proof (induction "is" arbitrary: cfg lg)
  case Nil
  then show ?case by simp
next
  case (Cons i "is")
  from Cons.prems have i: "i < NumField" and ni: "i \<notin> set is" and d: "distinct is"
    and b: "\<forall>i\<in>set is. i < NumField"
    by simp_all
  show ?case
  proof (cases "tag i ''trim'' = []")
    case True
    with Cons.IH [OF d b, of cfg lg] ni show ?thesis
      by (auto simp: CanInterface_def)
  next
    case tagged: False
    show ?thesis
    proof (cases "GetField i cfg")
      case (VString str)
      from SetField_Some [OF i, of "VString (TrimSpace str)" cfg] VString
      obtain cfg' where s: "SetField i (VString (TrimSpace str)) cfg = Some cfg'"
        by auto
      have upd: "\<And>j. j < NumField \<Longrightarrow>
          GetField j cfg' = (if j = i then VString (TrimSpace str) else GetField j cfg)"
        using Field_SetField [OF s] by simp
      have same: "\<And>j. j \<in> set is \<Longrightarrow> GetField j cfg' = GetField j cfg"
        using upd b ni by auto
      have flt: "filter (\<lambda>i. tag i ''trim'' \<noteq> [] \<and> KindOf (GetField i cfg') \<noteq> KString) is
          = filter (\<lambda>i. tag i ''trim'' \<noteq> [] \<and> KindOf (GetField i cfg) \<noteq> KString) is"
        by (rule filter_cong) (simp_all add: same)
      have mp: "map (trimWarning cfg')
             (filter (\<lambda>i. tag i ''trim'' \<noteq> [] \<and> KindOf (GetField i cfg) \<noteq> KString) is)
          = map (trimWarning cfg)
             (filter (\<lambda>i. tag i ''trim'' \<noteq> [] \<and> KindOf (GetField i cfg) \<noteq> KString) is)"
        by (rule map_cong) (simp_all add: trimWarning_def same)
      from Cons.IH [OF d b, of cfg' lg] flt mp
      obtain c' where c': "Trim_loop tag is cfg' lg =
            Some (c', lg @ map (trimWarning cfg)
                           (filter (\<lambda>i. tag i ''trim'' \<noteq> [] \<and> KindOf (GetField i cfg) \<noteq> KString) is))"
        and f: "\<And>j. j < NumField \<Longrightarrow> GetField j c' =
              (if j \<in> set is \<and> tag j ''trim'' \<noteq> [] then trimValue (GetField j cfg')
               else GetField j cfg')"
        by auto
      have "Trim_loop tag (i # is) cfg lg =
            Some (c', lg @ map (trimWarning cfg)
                           (filter (\<lambda>i. tag i ''trim'' \<noteq> [] \<and> KindOf (GetField i cfg) \<noteq> KString) (i # is)))"
        using tagged VString s c' by (simp add: CanInterface_def)
      moreover have "\<forall>j<NumField. GetField j c' =
              (if j \<in> set (i # is) \<and> tag j ''trim'' \<noteq> [] then trimValue (GetField j cfg)
               else GetField j cfg)"
        using f upd same ni tagged VString by (auto simp: trimValue_def)
      ultimately show ?thesis by blast
    next
      case (VBool x)
      with Cons.IH [OF d b, of cfg "lg @ [trimWarning cfg i]"] tagged ni show ?thesis
        by (auto simp: CanInterface_def trimWarning_def trimValue_def)
    next
      case (VUint16 x)
      with Cons.IH [OF d b, of cfg "lg @ [trimWarning cfg i]"] tagged ni show ?thesis
        by (auto simp: CanInterface_def trimWarning_def trimValue_def)
    next
      case (VUint16s x)
      with Cons.IH [OF d b, of cfg "lg @ [trimWarning cfg i]"] tagged ni show ?thesis
        by (auto simp: CanInterface_def trimWarning_def trimValue_def)
    next
      case (VBytes x)
      with Cons.IH [OF d b, of cfg "lg @ [trimWarning cfg i]"] tagged ni show ?thesis
        by (auto simp: CanInterface_def trimWarning_def trimValue_def)
    qed
  qed
qed

lemma TrimWhitespace_result:
  "\<exists>c'. TrimWhitespace tag cfg =
            Some (c', map (trimWarning cfg)
                        (filter (\<lambda>i. tag i ''trim'' \<noteq> [] \<and> KindOf (GetField i cfg) \<noteq> KString)
                           [0..<NumField]))
        \<and> (\<forall>j<NumField. GetField j c' =
              (if tag j ''trim'' \<noteq> [] then trimValue (GetField j cfg) else GetField j cfg))"
  using Trim_loop_result [of "[0..<NumField]" tag cfg "[]"]
  by (auto simp: TrimWhitespace_def)

lemma TrimLeftSpace_None: "leadingSpace s = None \<Longrightarrow> TrimLeftSpace s = s"
  by (subst TrimLeftSpace.simps) simp

lemma TrimLeftSpace_Some:
  "leadingSpace s = Some p \<Longrightarrow> TrimLeftSpace s = TrimLeftSpace (drop (length p) s)"
  by (subst TrimLeftSpace.simps) simp

lemma TrimRightSpace_None: "trailingSpace s = None \<Longrightarrow> TrimRightSpace s = s"
  by (subst TrimRightSpace.simps) simp

lemma TrimRightSpace_Some:
  "trailingSpace s = Some p \<Longrightarrow> TrimRightSpace s = TrimRightSpace (take (length s - length p) s)"
  by (subst TrimRightSpace.simps) simp

declare TrimLeftSpace.simps [simp del] TrimRightSpace.simps [simp del]

lemma leadingSpace_TrimLeftSpace: "leadingSpace (TrimLeftSpace s) = None"
proof (induction s rule: TrimLeftSpace.induct)
  case (1 s)
  then show ?case
    by (cases "leadingSpace s") (simp_all add: TrimLeftSpace_None TrimLeftSpace_Some)
qed

lemma trailingSpace_TrimRightSpace: "trailingSpace (TrimRightSpace s) = None"
proof (induction s rule: TrimRightSpace.induct)
  case (1 s)
  then show ?case
    by (cases "trailingSpace s") (simp_all add: TrimRightSpace_None TrimRightSpace_Some)
qed

lemma prefix_TrimRightSpace: "prefix (TrimRightSpace s) s"
proof (induction s rule: TrimRightSpace.induct)
  case (1 s)
  show ?case
  proof (cases "trailingSpace s")
    case None
    then show ?thesis by (simp add: TrimRightSpace_None)
  next
    case (Some p)
    with 1 have "prefix (TrimRightSpace s) (take (length s - length p) s)"
      by (simp add: TrimRightSpace_Some)
    then show ?thesis using take_is_prefix prefix_order.order_trans by blast
  qed
qed

lemma leadingSpace_prefix:
  "leadingSpace t = None \<Longrightarrow> prefix u t \<Longrightarrow> leadingSpace u = None"
  unfolding leadingSpace_def find_None_iff
  using prefix_order.order_trans by blast

lemma TrimSpace_stripped:
  "leadingSpace (TrimSpace s) = None \<and> trailingSpace (TrimSpace s) = None"
  unfolding TrimSpace_def
  using leadingSpace_prefix [OF leadingSpace_TrimLeftSpace prefix_TrimRightSpace]
    trailingSpace_TrimRightSpace by blast

text \<open>Strings made of whitespace runes only.\<close>

inductive spaces :: "string \<Rightarrow> bool" where
  spaces_Nil: "spaces []"
| spaces_rune: "p \<in> set spaceRunes \<Longrightarrow> spaces l \<Longrightarrow> spaces (p @ l)"

lemma spaces_append: "spaces a \<Longrightarrow> spaces b \<Longrightarrow> spaces (a @ b)"
  by (induction rule: spaces.induct) (auto intro: spaces.intros)

lemma spaces_single: "p \<in> set spaceRunes \<Longrightarrow> spaces p"
  using spaces_rune [OF _ spaces_Nil] by simp

lemma TrimLeftSpace_removes: "\<exists>l. spaces l \<and> s = l @ TrimLeftSpace s"
proof (induction s rule: TrimLeftSpace.induct)
  case (1 s)
  show ?case
  proof (cases "leadingSpace s")
    case None
    then show ?thesis using spaces_Nil by (auto simp: TrimLeftSpace_None)
  next
    case (Some p)
    then have p: "p \<in> set spaceRunes" and pre: "prefix p s"
      by (auto simp: leadingSpace_def find_Some_iff)
    from 1 [OF Some] obtain l where l: "spaces l"
      and e: "drop (length p) s = l @ TrimLeftSpace (drop (length p) s)" by blast
    from pre have "s = p @ drop (length p) s" by (auto simp: prefix_def)
    with e have "s = (p @ l) @ TrimLeftSpace s"
      using TrimLeftSpace_Some [OF Some] by (metis append.assoc)
    moreover have "spaces (p @ l)" using p l by (rule spaces_rune)
    ultimately show ?thesis by blast
  qed
qed

lemma TrimRightSpace_removes: "\<exists>r. spaces r \<and> s = TrimRightSpace s @ r"
proof (induction s rule: TrimRightSpace.induct)
  case (1 s)
  show ?case
  proof (cases "trailingSpace s")
    case None
    then show ?thesis using spaces_Nil by (auto simp: TrimRightSpace_None)
  next
    case (Some p)
    then have p: "p \<in> set spaceRunes" and suf: "suffix p s"
      by (auto simp: trailingSpace_def find_Some_iff)
    from 1 [OF Some] obtain r where r: "spaces r"
      and e: "take (length s - length p) s = TrimRightSpace (take (length s - length p) s) @ r"
      by blast
    from suf have "s = take (length s - length p) s @ p" by (auto simp: suffix_def)
    with e have "s = TrimRightSpace s @ (r @ p)"
      using TrimRightSpace_Some [OF Some] by (metis append.assoc)
    moreover have "spaces (r @ p)" using r p by (simp add: spaces_append spaces_single)
    ultimately show ?thesis by blast
  qed
qed

lemma TrimSpace_removes: "\<exists>l r. spaces l \<and> spaces r \<and> s = l @ TrimSpace s @ r"
proof -
  obtain l where l: "spaces l" "s = l @ TrimLeftSpace s"
    using TrimLeftSpace_removes by blast
  obtain r where r: "spaces r" "TrimLeftSpace s = TrimRightSpace (TrimLeftSpace s) @ r"
    using TrimRightSpace_removes by blast
  from l r have "s = l @ TrimSpace s @ r" by (simp add: TrimSpace_def)
  with l r show ?thesis by blast
qed

text \<open>
  Claim C8. \<open>TrimWhitespace\<close> never panics. Every field with a non-empty \<open>trim\<close> tag
  whose value is a string holds afterwards that string stripped by \<open>strings.TrimSpace\<close>
  (no whitespace rune is left at either end, and only whitespace runes were removed);
  every other field is unchanged, and for each trim-tagged field that is not a string one
  warning "Cannot trim non-string field" is logged, in field order.
\<close>

theorem C8_TrimWhitespace:
  "(\<exists>c'. TrimWhitespace tag cfg =
            Some (c', map (trimWarning cfg)
                        (filter (\<lambda>i. tag i ''trim'' \<noteq> [] \<and> KindOf (GetField i cfg) \<noteq> KString)
                           [0..<NumField]))
        \<and> (\<forall>j<NumField. GetField j c' =
              (if tag j ''trim'' \<noteq> [] then trimValue (GetField j cfg) else GetField j cfg)))
   \<and> (\<forall>s. trimValue (VString s) = VString (TrimSpace s)
          \<and> leadingSpace (TrimSpace s) = None \<and> trailingSpace (TrimSpace s) = None
          \<and> (\<exists>l r. spaces l \<and> spaces r \<and> s = l @ TrimSpace s @ r))
   \<and> (\<forall>v. KindOf v \<noteq> KString \<longrightarrow> trimValue v = v)"
proof -
  have "\<forall>v. KindOf v \<noteq> KString \<longrightarrow> trimValue v = v"
  proof (intro allI impI)
    fix v assume "KindOf v \<noteq> KString"
    then show "trimValue v = v" by (cases v) (simp_all add: trimValue_def)
  qed
  then show ?thesis
    using TrimWhitespace_result [of tag cfg] TrimSpace_stripped TrimSpace_removes
    by (simp add: trimValue_def)
qed


theorem C8_TrimWhitespace_witness:
  "\<exists>c'. TrimWhitespace (\<lambda>i k. if (i = 1 \<or> i = 8) \<and> k = ''trim'' then ''true'' else [])
           (ConfigZero\<lparr>Cluster := '' prod '', DataDir := '' /d ''\<rparr>)
         = Some (c', [Log LvlWarn ''Cannot trim non-string field''
                        [(''type'', CStr ''bool''), (''index'', CInt 8)]])
      \<and> GetField 1 c' = VString ''prod'' \<and> GetField 7 c' = VString '' /d ''
      \<and> GetField 8 c' = VBool False"
proof -
  let ?tag = "\<lambda>i k. if (i = 1 \<or> i = (8::nat)) \<and> k = ''trim'' then ''true'' else []"
  let ?cfg = "ConfigZero\<lparr>Cluster := '' prod '', DataDir := '' /d ''\<rparr>"
  have ts: "TrimSpace '' prod '' = ''prod''"
    by code_simp
  from C8_TrimWhitespace [of ?tag ?cfg]
  obtain c' where t: "TrimWhitespace ?tag ?cfg =
        Some (c', map (trimWarning ?cfg)
                    (filter (\<lambda>i. ?tag i ''trim'' \<noteq> [] \<and> KindOf (GetField i ?cfg) \<noteq> KString)
                       [0..<NumField]))"
    and f: "\<And>j. j < NumField \<Longrightarrow> GetField j c' =
        (if ?tag j ''trim'' \<noteq> [] then trimValue (GetField j ?cfg) else GetField j ?cfg)"
    by blast
  have w: "map (trimWarning ?cfg)
             (filter (\<lambda>i. ?tag i ''trim'' \<noteq> [] \<and> KindOf (GetField i ?cfg) \<noteq> KString)
                [0..<NumField])
           = [Log LvlWarn ''Cannot trim non-string field''
                [(''type'', CStr ''bool''), (''index'', CInt 8)]]"
    by (simp add: upt_NumField trimWarning_def GetField_def fieldValues_def ConfigZero_def)
  have "GetField 1 c' = VString ''prod''"
    using f [of 1] ts
    by (simp add: NumField_def GetField_def fieldValues_def ConfigZero_def trimValue_def)
  moreover have "GetField 7 c' = VString '' /d ''"
    using f [of 7] by (simp add: NumField_def GetField_def fieldValues_def ConfigZero_def)
  moreover have "GetField 8 c' = VBool False"
    using f [of 8]
    by (simp add: NumField_def GetField_def fieldValues_def ConfigZero_def trimValue_def)
  ultimately show ?thesis using t w by simp
qed

section \<open>The environment provider\<close>

text \<open>The record and the trace of \<open>EnvironmentConfig\<close>, field by field.\<close>

lemma EnvironmentConfig_explicit:
  "EnvironmentConfig w =
     (\<lparr>ClusterArn = [], Cluster = Getenv w ''ECS_CLUSTER'',
       APIEndpoint = Getenv w ''ECS_BACKEND_HOST'',
       DockerEndpoint = Getenv w ''DOCKER_HOST'',
       AWSRegion = Getenv w ''AWS_DEFAULT_REGION'',
       ReservedPorts = snd (DecodeUint16s (Getenv w ''ECS_RESERVED_PORTS'')),
       ReservedPortsUDP = snd (DecodeUint16s (Getenv w ''ECS_RESERVED_PORTS_UDP'')),
       DataDir = Getenv w ''ECS_DATADIR'',
       Checkpoint = ParseBool (Getenv w ''ECS_CHECKPOINT'') (Getenv w ''ECS_DATADIR'' \<noteq> []),
       EngineAuthType = Getenv w ''ECS_ENGINE_AUTH_TYPE'',
       EngineAuthData = Some (Getenv w ''ECS_ENGINE_AUTH_DATA''),
       UpdatesEnabled = ParseBool (Getenv w ''ECS_UPDATES_ENABLED'') False,
       UpdateDownloadDir = Getenv w ''ECS_UPDATE_DOWNLOAD_DIR'',
       DisableMetrics = ParseBool (Getenv w ''ECS_DISABLE_METRICS'') False,
       DockerGraphPath = Getenv w ''ECS_DOCKER_GRAPHPATH'',
       ReservedMemory = fst (parseReservedMemory (Getenv w ''ECS_RESERVED_MEMORY'')),
       EngineLogDriver = Getenv w ''DOCKER_LOG_DRIVER'',
       EngineLogOpts = Getenv w ''DOCKER_LOG_OPTS''\<rparr>,
      portsWarning ''ECS_RESERVED_PORTS'' (fst (DecodeUint16s (Getenv w ''ECS_RESERVED_PORTS'')))
      @ portsWarning ''ECS_RESERVED_PORTS_UDP''
          (fst (DecodeUint16s (Getenv w ''ECS_RESERVED_PORTS_UDP'')))
      @ snd (parseReservedMemory (Getenv w ''ECS_RESERVED_MEMORY'')))"
  by (simp add: EnvironmentConfig_def Let_def case_prod_beta ConfigZero_def)

text \<open>
  The value of a string of decimal digits, and the strings that are an unsigned integer
  fitting in 16 bits: not empty, decimal digits only, value at most 65535.
\<close>

definition decimal :: "string \<Rightarrow> nat" where
  "decimal s = foldl (\<lambda>n c. n * 10 + digitVal c) 0 s"

definition fitsUint16 :: "string \<Rightarrow> bool" where
  "fitsUint16 s = (s \<noteq> [] \<and> list_all isDigit s \<and> decimal s \<le> 65535)"

lemma foldl_decimal_mono: "n \<le> foldl (\<lambda>n c. n * 10 + digitVal c) n cs"
proof (induction cs arbitrary: n)
  case Nil
  then show ?case by simp
next
  case (Cons c cs)
  have "n \<le> n * 10 + digitVal c" by simp
  also have "\<dots> \<le> foldl (\<lambda>n c. n * 10 + digitVal c) (n * 10 + digitVal c) cs"
    by (rule Cons.IH)
  finally show ?case by simp
qed

lemma ParseUint_loop_16_ok:
  "n \<le> 65535 \<Longrightarrow> list_all isDigit cs \<Longrightarrow>
     foldl (\<lambda>n c. n * 10 + digitVal c) n cs \<le> 65535 \<Longrightarrow>
     ParseUint_loop cs n 16 = Inr (foldl (\<lambda>n c. n * 10 + digitVal c) n cs)"
proof (induction cs arbitrary: n)
  case Nil
  then show ?case by simp
next
  case (Cons c cs)
  from foldl_decimal_mono [of "n * 10 + digitVal c" cs] Cons.prems
  have b: "n * 10 + digitVal c \<le> 65535" by simp
  with Cons show ?case by (simp add: Let_def)
qed

lemma ParseUint_loop_16_err:
  "n \<le> 65535 \<Longrightarrow>
     \<not> (list_all isDigit cs \<and> foldl (\<lambda>n c. n * 10 + digitVal c) n cs \<le> 65535) \<Longrightarrow>
     \<exists>e. ParseUint_loop cs n 16 = Inl e"
proof (induction cs arbitrary: n)
  case Nil
  then show ?case by simp
next
  case (Cons c cs)
  show ?case
  proof (cases "isDigit c")
    case False
    then show ?thesis by simp
  next
    case True
    show ?thesis
    proof (cases "n * 10 + digitVal c \<le> 65535")
      case False
      with True Cons.prems show ?thesis by (simp add: Let_def)
    next
      case le: True
      from Cons.prems True
      have "\<not> (list_all isDigit cs
            \<and> foldl (\<lambda>n c. n * 10 + digitVal c) (n * 10 + digitVal c) cs \<le> 65535)"
        by simp
      from Cons.IH [OF le this] True le Cons.prems(1) show ?thesis
        by (simp add: Let_def)
    qed
  qed
qed

lemma ParseUint_16:
  "ParseUint s 16 = (if fitsUint16 s then Inr (decimal s) else Inl (projl (ParseUint s 16)))"
proof (cases "fitsUint16 s")
  case True
  then show ?thesis
    using ParseUint_loop_16_ok [of 0 s] by (simp add: ParseUint_def fitsUint16_def decimal_def)
next
  case False
  have "\<exists>e. ParseUint s 16 = Inl e"
  proof (cases "s = []")
    case True
    then show ?thesis by (simp add: ParseUint_def)
  next
    case ne: False
    with False ParseUint_loop_16_err [of 0 s] show ?thesis
      by (simp add: ParseUint_def fitsUint16_def decimal_def)
  qed
  with False show ?thesis by auto
qed

lemma parseReservedMemory_cases:
  "parseReservedMemory s =
     (if s = [] then (0, [])
      else if fitsUint16 s then (of_nat (decimal s), [])
      else (0, [invalidFormat ''ECS_RESERVED_MEMORY'' ''unsigned integer.'']))"
proof (cases "fitsUint16 s")
  case True
  then show ?thesis
    using ParseUint_16 [of s] by (simp add: parseReservedMemory_def)
next
  case False
  then obtain e where "ParseUint s 16 = Inl e"
    using ParseUint_16 [of s] by (cases "ParseUint s 16") auto
  with False show ?thesis by (simp add: parseReservedMemory_def)
qed

lemma unat_uint16: "n \<le> 65535 \<Longrightarrow> unat (of_nat n :: uint16) = n"
  by (simp add: unat_of_nat)

text \<open>
  Claim C10. When \<open>ECS_RESERVED_MEMORY\<close> is an unsigned decimal integer that fits in 16
  bits, the reserved-memory field read as an unsigned number is exactly that integer (no
  reduction modulo 65536) and no warning is logged for the variable; when the variable is
  empty or unset the field is 0 with no warning; for every other value the field is 0 and
  the warning is logged.
\<close>

theorem C10_reserved_memory:
  "(fitsUint16 (Getenv w ''ECS_RESERVED_MEMORY'') \<longrightarrow>
      unat (ReservedMemory (fst (EnvironmentConfig w))) = decimal (Getenv w ''ECS_RESERVED_MEMORY'')
      \<and> invalidFormat ''ECS_RESERVED_MEMORY'' ''unsigned integer.'' \<notin> set (snd (EnvironmentConfig w)))
   \<and> (Getenv w ''ECS_RESERVED_MEMORY'' = [] \<longrightarrow>
      ReservedMemory (fst (EnvironmentConfig w)) = 0
      \<and> invalidFormat ''ECS_RESERVED_MEMORY'' ''unsigned integer.'' \<notin> set (snd (EnvironmentConfig w)))
   \<and> (Getenv w ''ECS_RESERVED_MEMORY'' \<noteq> [] \<and> \<not> fitsUint16 (Getenv w ''ECS_RESERVED_MEMORY'') \<longrightarrow>
      ReservedMemory (fst (EnvironmentConfig w)) = 0
      \<and> invalidFormat ''ECS_RESERVED_MEMORY'' ''unsigned integer.'' \<in> set (snd (EnvironmentConfig w)))"
  by (auto simp: EnvironmentConfig_explicit parseReservedMemory_cases unat_uint16 fitsUint16_def
      portsWarning_def invalidFormat_def)

lemma Getenv_worldWith: "Getenv (worldWith e) k = (case e k of None \<Rightarrow> [] | Some v \<Rightarrow> v)"
  by (simp add: Getenv_def worldWith_def)

theorem C10_reserved_memory_witness:
  "unat (ReservedMemory (fst (EnvironmentConfig (worldWith [''ECS_RESERVED_MEMORY'' \<mapsto> ''512''])))) = 512
   \<and> ReservedMemory (fst (EnvironmentConfig (worldWith Map.empty))) = 0
   \<and> invalidFormat ''ECS_RESERVED_MEMORY'' ''unsigned integer.''
        \<notin> set (snd (EnvironmentConfig (worldWith Map.empty)))
   \<and> ReservedMemory (fst (EnvironmentConfig (worldWith [''ECS_RESERVED_MEMORY'' \<mapsto> ''65536'']))) = 0
   \<and> invalidFormat ''ECS_RESERVED_MEMORY'' ''unsigned integer.''
        \<in> set (snd (EnvironmentConfig (worldWith [''ECS_RESERVED_MEMORY'' \<mapsto> ''65536''])))"
  using C10_reserved_memory [of "worldWith [''ECS_RESERVED_MEMORY'' \<mapsto> ''512'']"]
    C10_reserved_memory [of "worldWith Map.empty"]
    C10_reserved_memory [of "worldWith [''ECS_RESERVED_MEMORY'' \<mapsto> ''65536'']"]
  by (simp add: Getenv_worldWith fitsUint16_def decimal_def isDigit_def digitVal_def)

text \<open>
  Claim C7 says that checkpointing defaults to true whenever \<open>ECS_DATADIR\<close> is set. The
  source tests \<open>dataDir != ""\<close>: with the variable set to the empty string and no
  \<open>ECS_CHECKPOINT\<close>, checkpointing is off.
\<close>

theorem C7_counterexample:
  "Env (worldWith [''ECS_DATADIR'' \<mapsto> []]) ''ECS_DATADIR'' = Some []
   \<and> Env (worldWith [''ECS_DATADIR'' \<mapsto> []]) ''ECS_CHECKPOINT'' = None
   \<and> \<not> Checkpoint (fst (EnvironmentConfig (worldWith [''ECS_DATADIR'' \<mapsto> []])))"
  by (simp add: EnvironmentConfig_explicit Getenv_def worldWith_def ParseBool_def
      boolTrue_def boolFalse_def)

text \<open>
  Claim C7, amended. The default of the checkpoint flag is true exactly when
  \<open>ECS_DATADIR\<close> is set to a non-empty value (false when it is unset or empty); the
  flag is \<open>ParseBool\<close> of \<open>ECS_CHECKPOINT\<close> with that default, so a value of
  \<open>ECS_CHECKPOINT\<close> that parses as a boolean overrides the default either way, and any
  other value leaves it.
\<close>

theorem C7_checkpoint_default:
  "Checkpoint (fst (EnvironmentConfig w)) =
     ParseBool (Getenv w ''ECS_CHECKPOINT'') (Getenv w ''ECS_DATADIR'' \<noteq> [])
   \<and> (Getenv w ''ECS_DATADIR'' \<noteq> [] \<longleftrightarrow> (\<exists>v. Env w ''ECS_DATADIR'' = Some v \<and> v \<noteq> []))
   \<and> (Getenv w ''ECS_CHECKPOINT'' \<in> set boolTrue \<longrightarrow> Checkpoint (fst (EnvironmentConfig w)))
   \<and> (Getenv w ''ECS_CHECKPOINT'' \<in> set boolFalse \<longrightarrow> \<not> Checkpoint (fst (EnvironmentConfig w)))
   \<and> (Getenv w ''ECS_CHECKPOINT'' \<notin> set boolTrue \<union> set boolFalse \<longrightarrow>
        Checkpoint (fst (EnvironmentConfig w)) = (Getenv w ''ECS_DATADIR'' \<noteq> []))"
proof -
  have "set boolTrue \<inter> set boolFalse = {}"
    by (simp add: boolTrue_def boolFalse_def)
  then show ?thesis
    by (auto simp: EnvironmentConfig_explicit ParseBool_def Getenv_def split: option.splits)
qed

theorem C7_checkpoint_default_witness:
  "Checkpoint (fst (EnvironmentConfig (worldWith [''ECS_DATADIR'' \<mapsto> ''/data''])))
   \<and> \<not> Checkpoint (fst (EnvironmentConfig (worldWith Map.empty)))
   \<and> \<not> Checkpoint (fst (EnvironmentConfig
          (worldWith [''ECS_DATADIR'' \<mapsto> ''/data'', ''ECS_CHECKPOINT'' \<mapsto> ''false''])))
   \<and> Checkpoint (fst (EnvironmentConfig (worldWith [''ECS_CHECKPOINT'' \<mapsto> ''true''])))"
  using C7_checkpoint_default [of "worldWith [''ECS_DATADIR'' \<mapsto> ''/data'']"]
    C7_checkpoint_default [of "worldWith Map.empty"]
    C7_checkpoint_default [of "worldWith [''ECS_DATADIR'' \<mapsto> ''/data'', ''ECS_CHECKPOINT'' \<mapsto> ''false'']"]
    C7_checkpoint_default [of "worldWith [''ECS_CHECKPOINT'' \<mapsto> ''true'']"]
  by (simp add: Getenv_worldWith ParseBool_def boolTrue_def boolFalse_def)

end
